theory Spec2Isabelle
  imports Complex_Main "HOL-Library.Char_ord" "HOL-Library.List_Lexorder"
begin

section \<open>Values, exceptions and effects\<close>

text \<open>
  The values that \<^verbatim>\<open>json.loads\<close> produces: \<^verbatim>\<open>None\<close>, booleans, numbers, strings,
  lists and dicts. Python's \<^verbatim>\<open>int\<close> and \<^verbatim>\<open>float\<close> are both \<open>JNum\<close>, a float being
  idealised as the real number it stands for (no NaN, no rounding). A dict is an association
  list read with \<open>map_of\<close>.
\<close>

datatype json =
    JNull
  | JBool bool
  | JNum real
  | JStr string
  | JArr "json list"
  | JObj "(string \<times> json) list"

text \<open>
  The exceptions the code can meet; every one of them is an \<^verbatim>\<open>Exception\<close>, so an
  \<^verbatim>\<open>except Exception\<close> clause catches each. \<open>LibraryError\<close> stands for whatever a library
  call (shapely, the blob client, the JSON parser, SendGrid) raises.
\<close>

datatype py_error =
    KeyError
  | IndexError
  | TypeError
  | AttributeError
  | ValueError
  | LibraryError string

datatype level = INFO | WARNING | ERROR

text \<open>The message built at lines 29-39: sender, recipient, and what subject and body interpolate.\<close>

record mail =
  from_email :: string
  to_emails :: "string option"
  mail_device_id :: string
  mail_lat :: json
  mail_lon :: json
  mail_abs_distance :: real
  mail_time :: string

text \<open>
  What a run does besides returning: log lines (level and the fixed part of the message),
  the download of a blob (container, blob name), a send attempt through SendGrid (API key,
  message), and the entry into \<^verbatim>\<open>send_geofence_alert\<close> with its four arguments.
\<close>

datatype effect =
    Log level string
  | DownloadBlob string string
  | SendGridSend string mail
  | Call_send_geofence_alert json json real string

subsection \<open>Python operations on parsed JSON\<close>

text \<open>\<^verbatim>\<open>obj[key]\<close> with a string key.\<close>

fun getitem_str :: "json \<Rightarrow> string \<Rightarrow> py_error + json" where
  "getitem_str (JObj kvs) k = (case map_of kvs k of None \<Rightarrow> Inl KeyError | Some v \<Rightarrow> Inr v)"
| "getitem_str _ k = Inl TypeError"

text \<open>
  \<^verbatim>\<open>obj[i]\<close> with a non-negative integer index: a list or a string is indexed, a dict from
  \<^verbatim>\<open>json.loads\<close> has string keys only, anything else is not subscriptable.
\<close>

fun getitem_idx :: "json \<Rightarrow> nat \<Rightarrow> py_error + json" where
  "getitem_idx (JArr xs) i = (if i < length xs then Inr (xs ! i) else Inl IndexError)"
| "getitem_idx (JStr s) i = (if i < length s then Inr (JStr [s ! i]) else Inl IndexError)"
| "getitem_idx (JObj kvs) i = Inl KeyError"
| "getitem_idx _ i = Inl TypeError"

text \<open>\<^verbatim>\<open>obj.get(key, default)\<close>: only a dict has the method.\<close>

fun py_get_default :: "json \<Rightarrow> string \<Rightarrow> json \<Rightarrow> py_error + json" where
  "py_get_default (JObj kvs) k d = Inr (case map_of kvs k of None \<Rightarrow> d | Some v \<Rightarrow> v)"
| "py_get_default _ k d = Inl AttributeError"

text \<open>\<^verbatim>\<open>obj.get(key)\<close>: the default is \<^verbatim>\<open>None\<close>.\<close>

definition py_get :: "json \<Rightarrow> string \<Rightarrow> py_error + json" where
  "py_get obj k = py_get_default obj k JNull"

text \<open>Truth value of a parsed JSON value, as \<^verbatim>\<open>or\<close> tests it.\<close>

fun truthy :: "json \<Rightarrow> bool" where
  "truthy JNull = False"
| "truthy (JBool b) = b"
| "truthy (JNum x) = (x \<noteq> 0)"
| "truthy (JStr s) = (s \<noteq> [])"
| "truthy (JArr xs) = (xs \<noteq> [])"
| "truthy (JObj kvs) = (kvs \<noteq> [])"

section \<open>The geometry library\<close>

text \<open>
  \<^verbatim>\<open>shapely\<close> is not part of the repository, so the model takes it as a parameter: the five
  operations that \<^verbatim>\<open>point_in_geofence\<close> calls, over a type \<open>'g\<close> of geometries. Each may
  raise.
\<close>

record 'g shapely =
  sh_Point :: "json \<Rightarrow> json \<Rightarrow> py_error + 'g"
  sh_Polygon :: "json \<Rightarrow> py_error + 'g"
  sh_contains :: "'g \<Rightarrow> 'g \<Rightarrow> py_error + bool"
  sh_boundary :: "'g \<Rightarrow> py_error + 'g"
  sh_distance :: "'g \<Rightarrow> 'g \<Rightarrow> py_error + real"

section \<open>point_in_geofence\<close>

text \<open>Lines 63-67: the geometry the boundary object stands for.\<close>

definition resolve_geometry :: "json \<Rightarrow> py_error + json" where
  "resolve_geometry geofence_data =
     (case getitem_str geofence_data ''type'' of
        Inl e \<Rightarrow> Inl e
      | Inr t \<Rightarrow>
          if t = JStr ''FeatureCollection'' then
            (case getitem_str geofence_data ''features'' of
               Inl e \<Rightarrow> Inl e
             | Inr fs \<Rightarrow>
                 (case getitem_idx fs 0 of
                    Inl e \<Rightarrow> Inl e
                  | Inr f \<Rightarrow> getitem_str f ''geometry''))
          else Inr geofence_data)"

text \<open>The expression \<^verbatim>\<open>point.distance(polygon.boundary) * 111000\<close>.\<close>

definition boundary_metres :: "'g shapely \<Rightarrow> 'g \<Rightarrow> 'g \<Rightarrow> py_error + real" where
  "boundary_metres lib point polygon =
     (case sh_boundary lib polygon of
        Inl e \<Rightarrow> Inl e
      | Inr ring \<Rightarrow>
          (case sh_distance lib point ring of
             Inl e \<Rightarrow> Inl e
           | Inr d \<Rightarrow> Inr (d * 111000)))"

text \<open>
  Lines 69-74. The result is \<open>None\<close> where the Python function runs off the end of the
  \<^verbatim>\<open>try\<close> block without a \<^verbatim>\<open>return\<close>.
\<close>

definition evaluate_geometry :: "'g shapely \<Rightarrow> 'g \<Rightarrow> json \<Rightarrow> py_error + real option" where
  "evaluate_geometry lib point geometry =
     (case getitem_str geometry ''type'' of
        Inl e \<Rightarrow> Inl e
      | Inr t \<Rightarrow>
          if t = JStr ''Polygon'' then
            (case getitem_str geometry ''coordinates'' of
               Inl e \<Rightarrow> Inl e
             | Inr cs \<Rightarrow>
                 (case getitem_idx cs 0 of
                    Inl e \<Rightarrow> Inl e
                  | Inr shell \<Rightarrow>
                      (case sh_Polygon lib shell of
                         Inl e \<Rightarrow> Inl e
                       | Inr polygon \<Rightarrow>
                           (case sh_contains lib polygon point of
                              Inl e \<Rightarrow> Inl e
                            | Inr inside \<Rightarrow>
                                if inside then
                                  (case boundary_metres lib point polygon of
                                     Inl e \<Rightarrow> Inl e
                                   | Inr distance \<Rightarrow>
                                       Inr (Some (if distance > 50 then - 999 else - distance)))
                                else
                                  (case boundary_metres lib point polygon of
                                     Inl e \<Rightarrow> Inl e
                                   | Inr m \<Rightarrow>
                                       if m > 50 then Inr (Some 999)
                                       else
                                         (case boundary_metres lib point polygon of
                                            Inl e \<Rightarrow> Inl e
                                          | Inr m' \<Rightarrow> Inr (Some m')))))))
          else Inr None)"

text \<open>The body of the \<^verbatim>\<open>try\<close> block, lines 60-74, with the log line it writes.\<close>

definition point_in_geofence_try ::
  "'g shapely \<Rightarrow> json \<Rightarrow> json \<Rightarrow> json \<Rightarrow> (py_error + real option) \<times> effect list" where
  "point_in_geofence_try lib lat lon geofence_data =
     (case sh_Point lib lon lat of
        Inl e \<Rightarrow> (Inl e, [])
      | Inr point \<Rightarrow>
          (case resolve_geometry geofence_data of
             Inl e \<Rightarrow> (Inl e, [Log INFO ''Checking point''])
           | Inr geometry \<Rightarrow>
               (evaluate_geometry lib point geometry, [Log INFO ''Checking point''])))"

text \<open>Lines 57-77: the \<^verbatim>\<open>except Exception\<close> clause logs and returns 999.\<close>

definition point_in_geofence ::
  "'g shapely \<Rightarrow> json \<Rightarrow> json \<Rightarrow> json \<Rightarrow> real option \<times> effect list" where
  "point_in_geofence lib lat lon geofence_data =
     (case point_in_geofence_try lib lat lon geofence_data of
        (Inl e, tr) \<Rightarrow> (Some 999, tr @ [Log ERROR ''Geofence error''])
      | (Inr r, tr) \<Rightarrow> (r, tr))"

section \<open>The services a handler talks to\<close>

text \<open>
  Everything outside the repository that the handlers reach: the geometry library, the
  process environment (\<^verbatim>\<open>os.environ\<close>), the blob service (handles of type \<open>'c\<close> for service
  and container clients), the JSON parser, SendGrid (\<^verbatim>\<open>SendGridAPIClient(key).send(message)\<close>,
  giving the status code) and the clock (\<^verbatim>\<open>datetime.utcnow().isoformat()\<close>).
\<close>

record ('g, 'c) services =
  shapely_lib :: "'g shapely"
  environ :: "string \<rightharpoonup> string"
  from_connection_string :: "string \<Rightarrow> py_error + 'c"
  get_container_client :: "'c \<Rightarrow> string \<Rightarrow> py_error + 'c"
  create_container :: "'c \<Rightarrow> string \<Rightarrow> py_error + 'c"
  list_blobs :: "'c \<Rightarrow> py_error + string list"
  download_blob :: "'c \<Rightarrow> string \<Rightarrow> string \<Rightarrow> py_error + string"
  json_loads :: "string \<Rightarrow> py_error + json"
  sendgrid_send :: "string \<Rightarrow> mail \<Rightarrow> py_error + nat"
  utcnow :: string

section \<open>send_geofence_alert\<close>

text \<open>
  Lines 20-45, the message of lines 29-39 first. Building the message (the \<^verbatim>\<open>Mail\<close>
  constructor on strings, the formatting of \<^verbatim>\<open>abs(distance)\<close> for a float) is a plain record
  here. The result of the function is the pair of what the call gives its caller (\<open>Inl\<close> an
  exception, \<open>Inr ()\<close> a normal return) and what it did.
\<close>

definition alert_message ::
  "('g, 'c) services \<Rightarrow> json \<Rightarrow> json \<Rightarrow> real \<Rightarrow> string \<Rightarrow> mail" where
  "alert_message w lat lon distance device_id =
     \<lparr> from_email = (case environ w ''SenderEmail'' of
                        None \<Rightarrow> ''notifications@yourdomain.com'' | Some s \<Rightarrow> s),
       to_emails = environ w ''AlertRecipientEmail'',
       mail_device_id = device_id,
       mail_lat = lat,
       mail_lon = lon,
       mail_abs_distance = \<bar>distance\<bar>,
       mail_time = utcnow w \<rparr>"

definition send_geofence_alert ::
  "('g, 'c) services \<Rightarrow> json \<Rightarrow> json \<Rightarrow> real \<Rightarrow> string \<Rightarrow> (py_error + unit) \<times> effect list" where
  "send_geofence_alert w lat lon distance device_id =
     (let entry = [Call_send_geofence_alert lat lon distance device_id,
                   Log INFO ''Attempting to send notification...'']
      in if environ w ''SendGridApiKey'' = None then
           (Inr (), entry @
              [Log WARNING ''SendGridApiKey not found - running locally? Using mock notification'',
               Log INFO ''MOCK EMAIL: Geofence alert''])
         else
           (let message = alert_message w lat lon distance device_id
            in case environ w ''SendGridApiKey'' of
                 None \<Rightarrow> (Inr (), entry @ [Log ERROR ''Failed to send email''])
               | Some key \<Rightarrow>
                   (case sendgrid_send w key message of
                      Inl e \<Rightarrow>
                        (Inr (), entry @ [SendGridSend key message, Log ERROR ''Failed to send email''])
                    | Inr status \<Rightarrow>
                        (Inr (), entry @ [SendGridSend key message, Log INFO ''Notification sent'']))))"

section \<open>process_geofence_event\<close>

text \<open>\<^verbatim>\<open>a or b\<close> where \<open>b\<close> is a call evaluated only when \<open>a\<close> is falsy.\<close>

definition py_or :: "json \<Rightarrow> (py_error + json) \<Rightarrow> py_error + json" where
  "py_or a b = (if truthy a then Inr a else b)"

text \<open>Lines 84-86: the pair \<^verbatim>\<open>(lat, lon)\<close> read from the payload.\<close>

definition extract_coordinates :: "json \<Rightarrow> py_error + (json \<times> json)" where
  "extract_coordinates event_body =
     (case py_get_default event_body ''gps'' event_body of
        Inl e \<Rightarrow> Inl e
      | Inr gps_data \<Rightarrow>
          (case py_get gps_data ''lat'' of
             Inl e \<Rightarrow> Inl e
           | Inr a \<Rightarrow>
               (case py_or a (py_get gps_data ''latitude'') of
                  Inl e \<Rightarrow> Inl e
                | Inr lat \<Rightarrow>
                    (case py_get gps_data ''lon'' of
                       Inl e \<Rightarrow> Inl e
                     | Inr b \<Rightarrow>
                         (case py_or b (py_get gps_data ''longitude'') of
                            Inl e \<Rightarrow> Inl e
                          | Inr lon \<Rightarrow> Inr (lat, lon))))))"

text \<open>Lines 95-103: the boundary object is fetched and parsed on every call.\<close>

definition load_geofence :: "('g, 'c) services \<Rightarrow> (py_error + json) \<times> effect list" where
  "load_geofence w =
     (case environ w ''STORAGE_CONNECTION_STRING'' of
        None \<Rightarrow> (Inl KeyError, [])
      | Some conn \<Rightarrow>
          (case from_connection_string w conn of
             Inl e \<Rightarrow> (Inl e, [])
           | Inr client \<Rightarrow>
               (let container = (case environ w ''GEOFENCE_CONTAINER'' of
                                   None \<Rightarrow> ''geofences'' | Some c \<Rightarrow> c);
                    blob = (case environ w ''GEOFENCE_BLOB_NAME'' of
                              None \<Rightarrow> ''geofence/geofence.json'' | Some b \<Rightarrow> b);
                    tr = [Log INFO ''Downloading geofence data...'', DownloadBlob container blob]
                in case download_blob w client container blob of
                     Inl e \<Rightarrow> (Inl e, tr)
                   | Inr bytes \<Rightarrow>
                       (case json_loads w bytes of
                          Inl e \<Rightarrow> (Inl e, tr)
                        | Inr geofence_data \<Rightarrow> (Inr geofence_data, tr)))))"

text \<open>
  Lines 79-112. Comparing \<^verbatim>\<open>None <= 0\<close> raises \<^verbatim>\<open>TypeError\<close>.
\<close>

definition process_geofence_event ::
  "('g, 'c) services \<Rightarrow> json \<Rightarrow> string \<Rightarrow> (py_error + unit) \<times> effect list" where
  "process_geofence_event w event_body device_id =
     (let tr0 = [Log INFO ''Processing event''] in
      case extract_coordinates event_body of
        Inl e \<Rightarrow> (Inl e, tr0)
      | Inr (lat, lon) \<Rightarrow>
          if lat = JNull \<or> lon = JNull then
            (Inr (), tr0 @ [Log ERROR ''GPS coordinates not found in event data''])
          else
            (let tr1 = tr0 @ [Log INFO ''GPS coordinates''] in
             case load_geofence w of
               (Inl e, lg) \<Rightarrow> (Inl e, tr1 @ lg)
             | (Inr geofence_data, lg) \<Rightarrow>
                 (case point_in_geofence (shapely_lib w) lat lon geofence_data of
                    (None, lp) \<Rightarrow> (Inl TypeError, tr1 @ lg @ lp)
                  | (Some distance, lp) \<Rightarrow>
                      if distance \<le> 0 then
                        (case send_geofence_alert w lat lon distance device_id of
                           (r, la) \<Rightarrow>
                             (r, tr1 @ lg @ lp @ [Log INFO ''Point is INSIDE geofence''] @ la))
                      else
                        (Inr (), tr1 @ lg @ lp @ [Log INFO ''Point is OUTSIDE geofence'']))))"

text \<open>Reading a trace: the alert calls and the blob downloads in it, in order.\<close>

fun alert_calls :: "effect list \<Rightarrow> (json \<times> json \<times> real \<times> string) list" where
  "alert_calls [] = []"
| "alert_calls (Call_send_geofence_alert lat lon d dev # es) = (lat, lon, d, dev) # alert_calls es"
| "alert_calls (e # es) = alert_calls es"

fun blob_fetches :: "effect list \<Rightarrow> (string \<times> string) list" where
  "blob_fetches [] = []"
| "blob_fetches (DownloadBlob c b # es) = (c, b) # blob_fetches es"
| "blob_fetches (e # es) = blob_fetches es"

fun send_attempts :: "effect list \<Rightarrow> (string \<times> mail) list" where
  "send_attempts [] = []"
| "send_attempts (SendGridSend k m # es) = (k, m) # send_attempts es"
| "send_attempts (e # es) = send_attempts es"

section \<open>list_gps_dates\<close>

text \<open>\<^verbatim>\<open>s.split(sep)\<close> for a one-character separator; \<open>cur\<close> is the part read so far, reversed.\<close>

fun split_acc :: "char \<Rightarrow> string \<Rightarrow> string \<Rightarrow> string list" where
  "split_acc sep cur [] = [rev cur]"
| "split_acc sep cur (x # xs) =
     (if x = sep then rev cur # split_acc sep [] xs else split_acc sep (x # cur) xs)"

definition split :: "string \<Rightarrow> char \<Rightarrow> string list" where
  "split s sep = split_acc sep [] s"

text \<open>Lines 47-55.\<close>

definition get_or_create_container :: "('g, 'c) services \<Rightarrow> string \<Rightarrow> py_error + 'c" where
  "get_or_create_container w name =
     (case environ w ''STORAGE_CONNECTION_STRING'' of
        None \<Rightarrow> Inl KeyError
      | Some conn \<Rightarrow>
          (case from_connection_string w conn of
             Inl e \<Rightarrow> Inl e
           | Inr blob_service_client \<Rightarrow>
               (case get_container_client w blob_service_client name of
                  Inr c \<Rightarrow> Inr c
                | Inl e \<Rightarrow> create_container w blob_service_client name)))"

text \<open>One round of the loop at lines 165-169.\<close>

definition add_date :: "string \<Rightarrow> string set \<Rightarrow> string set" where
  "add_date name dates =
     (let parts = split name CHR ''/'' in
      if length parts \<ge> 4 then insert (parts ! 1 @ ''-'' @ parts ! 2 @ ''-'' @ parts ! 3) dates
      else dates)"

text \<open>Lines 164-172: the list that is handed to \<^verbatim>\<open>json.dumps\<close>.\<close>

definition gps_dates :: "string list \<Rightarrow> string list" where
  "gps_dates names = sorted_list_of_set (fold add_date names {})"

datatype http_body = Json_dumps json | Error_str py_error

record http_response =
  body :: http_body
  status_code :: nat
  mimetype :: "string option"

text \<open>Lines 157-177.\<close>

definition list_gps_dates :: "('g, 'c) services \<Rightarrow> http_response" where
  "list_gps_dates w =
     (case get_or_create_container w ''gps-data'' of
        Inl e \<Rightarrow> \<lparr>body = Error_str e, status_code = 500, mimetype = None\<rparr>
      | Inr container_client \<Rightarrow>
          (case list_blobs w container_client of
             Inl e \<Rightarrow> \<lparr>body = Error_str e, status_code = 500, mimetype = None\<rparr>
           | Inr names \<Rightarrow>
               \<lparr>body = Json_dumps (JArr (map JStr (gps_dates names))),
                status_code = 200, mimetype = Some ''application/json''\<rparr>))"

section \<open>A planar instance of the geometry library\<close>

text \<open>
  To run the model on concrete inputs the geometry interface needs an instance. This one is
  plane geometry over the reals on a single closed ring: a point is contained when it is off
  the ring and a ray from it crosses the ring an odd number of times, and the distance to the
  ring is the least Euclidean distance to one of its segments. The theorems below hold for
  every instance of the interface, not for this one alone.
\<close>

type_synonym coord = "real \<times> real"

datatype geom = GPoint coord | GLinearRing "coord list" | GPolygon "coord list"

fun json_coord :: "json \<Rightarrow> py_error + coord" where
  "json_coord (JArr (JNum x # JNum y # rest)) = Inr (x, y)"
| "json_coord _ = Inl TypeError"

fun json_coords :: "json list \<Rightarrow> py_error + coord list" where
  "json_coords [] = Inr []"
| "json_coords (j # js) =
     (case json_coord j of
        Inl e \<Rightarrow> Inl e
      | Inr c \<Rightarrow> (case json_coords js of Inl e \<Rightarrow> Inl e | Inr cs \<Rightarrow> Inr (c # cs)))"

fun planar_Point :: "json \<Rightarrow> json \<Rightarrow> py_error + geom" where
  "planar_Point (JNum x) (JNum y) = Inr (GPoint (x, y))"
| "planar_Point _ _ = Inl TypeError"

fun planar_Polygon :: "json \<Rightarrow> py_error + geom" where
  "planar_Polygon (JArr js) =
     (case json_coords js of
        Inl e \<Rightarrow> Inl e
      | Inr cs \<Rightarrow>
          if length cs < 3 then Inl ValueError
          else Inr (GPolygon (if hd cs = last cs then cs else cs @ [hd cs])))"
| "planar_Polygon _ = Inl TypeError"

fun planar_boundary :: "geom \<Rightarrow> py_error + geom" where
  "planar_boundary (GPolygon ring) = Inr (GLinearRing ring)"
| "planar_boundary _ = Inl TypeError"

definition sq_dist :: "coord \<Rightarrow> coord \<Rightarrow> real" where
  "sq_dist p q = (fst p - fst q)\<^sup>2 + (snd p - snd q)\<^sup>2"

text \<open>Squared distance from \<open>p\<close> to the segment \<open>s\<close>: to the nearest point of it.\<close>

definition sq_dist_segment :: "coord \<Rightarrow> coord \<times> coord \<Rightarrow> real" where
  "sq_dist_segment p s =
     (let a = fst s; b = snd s; l = sq_dist a b in
      if l = 0 then sq_dist p a
      else
        (let t = max 0 (min 1
                   (((fst p - fst a) * (fst b - fst a) + (snd p - snd a) * (snd b - snd a)) / l))
         in sq_dist p (fst a + t * (fst b - fst a), snd a + t * (snd b - snd a))))"

definition edges :: "coord list \<Rightarrow> (coord \<times> coord) list" where
  "edges ring = zip ring (tl ring)"

text \<open>Does the ray from \<open>p\<close> towards greater x cross the segment \<open>s\<close>?\<close>

definition crosses :: "coord \<Rightarrow> coord \<times> coord \<Rightarrow> bool" where
  "crosses p s =
     (let a = fst s; b = snd s in
      (snd a > snd p) \<noteq> (snd b > snd p) \<and>
      fst p < (fst b - fst a) * (snd p - snd a) / (snd b - snd a) + fst a)"

fun planar_contains :: "geom \<Rightarrow> geom \<Rightarrow> py_error + bool" where
  "planar_contains (GPolygon ring) (GPoint p) =
     Inr (list_all (\<lambda>s. sq_dist_segment p s \<noteq> 0) (edges ring) \<and>
          odd (length (filter (crosses p) (edges ring))))"
| "planar_contains _ _ = Inl TypeError"

fun planar_distance :: "geom \<Rightarrow> geom \<Rightarrow> py_error + real" where
  "planar_distance (GPoint p) (GLinearRing ring) =
     (case edges ring of
        [] \<Rightarrow> Inl ValueError
      | s # ss \<Rightarrow> Inr (sqrt (fold min (map (sq_dist_segment p) ss) (sq_dist_segment p s))))"
| "planar_distance _ _ = Inl TypeError"

definition planar :: "geom shapely" where
  "planar = \<lparr> sh_Point = planar_Point, sh_Polygon = planar_Polygon,
              sh_contains = planar_contains, sh_boundary = planar_boundary,
              sh_distance = planar_distance \<rparr>"

text \<open>
  Services for a test run: the planar geometry, a blob store that always answers (the stored
  boundary parses to \<open>boundary\<close>, the sample container lists \<open>names\<close>), a SendGrid that
  accepts every message, and a given environment.
\<close>

definition test_services ::
  "json \<Rightarrow> string list \<Rightarrow> (string \<rightharpoonup> string) \<Rightarrow> (geom, unit) services" where
  "test_services boundary names env =
     \<lparr> shapely_lib = planar,
       environ = env,
       from_connection_string = (\<lambda>conn. Inr ()),
       get_container_client = (\<lambda>client name. Inr ()),
       create_container = (\<lambda>client name. Inr ()),
       list_blobs = (\<lambda>container. Inr names),
       download_blob = (\<lambda>client container blob. Inr ''{}''),
       json_loads = (\<lambda>bytes. Inr boundary),
       sendgrid_send = (\<lambda>key message. Inr 202),
       utcnow = ''2024-01-02T10:15:00'' \<rparr>"

text \<open>The polygon of the specification's example, bare and wrapped in a feature collection.\<close>

definition example_ring :: json where
  "example_ring =
     JArr [JArr [JNum 5.869, JNum 36.527], JArr [JNum 5.870, JNum 36.527],
           JArr [JNum 5.870, JNum 36.528], JArr [JNum 5.869, JNum 36.528]]"

definition example_polygon :: json where
  "example_polygon = JObj [(''type'', JStr ''Polygon''), (''coordinates'', JArr [example_ring])]"


definition storage_env :: "string \<rightharpoonup> string" where
  "storage_env = [''STORAGE_CONNECTION_STRING'' \<mapsto> ''UseDevelopmentStorage=true'']"

text \<open>A payload dict that has none of the four coordinate keys.\<close>

definition no_coordinates :: "(string \<times> json) list \<Rightarrow> bool" where
  "no_coordinates kvs \<longleftrightarrow>
     map_of kvs ''lat'' = None \<and> map_of kvs ''latitude'' = None \<and>
     map_of kvs ''lon'' = None \<and> map_of kvs ''longitude'' = None"

text \<open>A geometry of a type the code does not handle.\<close>

definition example_multipolygon :: json where
  "example_multipolygon =
     JObj [(''type'', JStr ''MultiPolygon''), (''coordinates'', JArr [JArr [example_ring]])]"

section \<open>The example polygon in the planar instance\<close>

lemma example_Polygon:
  "sh_Polygon planar example_ring =
     Inr (GPolygon [(5.869, 36.527), (5.870, 36.527), (5.870, 36.528), (5.869, 36.528),
                    (5.869, 36.527)])"
  by (simp add: planar_def example_ring_def)

lemma example_boundary:
  "sh_boundary planar
     (GPolygon [(5.869, 36.527), (5.870, 36.527), (5.870, 36.528), (5.869, 36.528),
                (5.869, 36.527)])
   = Inr (GLinearRing [(5.869, 36.527), (5.870, 36.527), (5.870, 36.528), (5.869, 36.528),
                       (5.869, 36.527)])"
  by (simp add: planar_def)

lemma example_resolve: "resolve_geometry example_polygon = Inr example_polygon"
  by (simp add: resolve_geometry_def example_polygon_def)

lemma example_type: "getitem_str example_polygon ''type'' = Inr (JStr ''Polygon'')"
  by (simp add: example_polygon_def)

lemma example_coordinates:
  "getitem_str example_polygon ''coordinates'' = Inr (JArr [example_ring])"
  by (simp add: example_polygon_def)

lemma example_shell: "getitem_idx (JArr [example_ring]) 0 = Inr example_ring"
  by simp

text \<open>The centre of the square is inside, a two-thousandth of a degree from the ring.\<close>

lemma example_centre_Point:
  "sh_Point planar (JNum 5.8695) (JNum 36.5275) = Inr (GPoint (5.8695, 36.5275))"
  by (simp add: planar_def)

lemma example_centre_inside:
  "sh_contains planar
     (GPolygon [(5.869, 36.527), (5.870, 36.527), (5.870, 36.528), (5.869, 36.528),
                (5.869, 36.527)])
     (GPoint (5.8695, 36.5275)) = Inr True"
  by (simp add: planar_def edges_def sq_dist_segment_def sq_dist_def crosses_def Let_def)

lemma sqrt_2000: "sqrt (1 / 4000000) = 1 / 2000"
proof -
  have "sqrt ((1 / 2000)\<^sup>2) = 1 / 2000"
    by simp
  moreover have "((1::real) / 2000)\<^sup>2 = 1 / 4000000"
    by (simp add: power2_eq_square)
  ultimately show ?thesis by simp
qed

lemma example_centre_distance:
  "sh_distance planar (GPoint (5.8695, 36.5275))
     (GLinearRing [(5.869, 36.527), (5.870, 36.527), (5.870, 36.528), (5.869, 36.528),
                   (5.869, 36.527)])
   = Inr (1 / 2000)"
  using sqrt_2000
  by (simp add: planar_def edges_def sq_dist_segment_def sq_dist_def Let_def power2_eq_square)

section \<open>The decision value\<close>

text \<open>
  Claim C1. When the boundary resolves to a Polygon geometry and the library calls return,
  let \<open>d\<close> be the distance from the point to the polygon's boundary ring times 111000. Then
  the decision value is \<open>-999\<close> for a contained point with \<open>d > 50\<close>, \<open>-d\<close> for a contained
  point with \<open>d \<le> 50\<close>, \<open>999\<close> for a point that is not contained with \<open>d > 50\<close>, and
  otherwise \<open>d\<close>, which is not negative since a distance is not.
\<close>

theorem point_in_geofence_polygon_decision:
  assumes "sh_Point lib lon lat = Inr point"
    and "resolve_geometry geofence_data = Inr geometry"
    and "getitem_str geometry ''type'' = Inr (JStr ''Polygon'')"
    and "getitem_str geometry ''coordinates'' = Inr cs"
    and "getitem_idx cs 0 = Inr shell"
    and "sh_Polygon lib shell = Inr polygon"
    and "sh_contains lib polygon point = Inr inside"
    and "sh_boundary lib polygon = Inr ring"
    and "sh_distance lib point ring = Inr deg"
    and "0 \<le> deg"
    and "d = deg * 111000"
  shows "(inside \<and> d > 50 \<longrightarrow>
            fst (point_in_geofence lib lat lon geofence_data) = Some (- 999)) \<and>
         (inside \<and> d \<le> 50 \<longrightarrow>
            fst (point_in_geofence lib lat lon geofence_data) = Some (- d)) \<and>
         (\<not> inside \<and> d > 50 \<longrightarrow>
            fst (point_in_geofence lib lat lon geofence_data) = Some 999) \<and>
         (\<not> inside \<and> d \<le> 50 \<longrightarrow>
            fst (point_in_geofence lib lat lon geofence_data) = Some d \<and> 0 \<le> d)"
  using assms
  by (simp add: point_in_geofence_def point_in_geofence_try_def evaluate_geometry_def
      boundary_metres_def)

theorem point_in_geofence_polygon_decision_witness:
  "fst (point_in_geofence planar (JNum 36.5275) (JNum 5.8695) example_polygon) = Some (- 999)"
proof -
  have nonneg: "(0::real) \<le> 1 / 2000" by simp
  show ?thesis
    using point_in_geofence_polygon_decision [OF example_centre_Point example_resolve
        example_type example_coordinates example_shell example_Polygon example_centre_inside
        example_boundary example_centre_distance nonneg refl]
    by simp
qed

section \<open>Reading traces\<close>

lemma alert_calls_append: "alert_calls (xs @ ys) = alert_calls xs @ alert_calls ys"
  by (induction xs rule: alert_calls.induct) simp_all

lemma load_geofence_no_alert: "alert_calls (snd (load_geofence w)) = []"
  by (simp add: load_geofence_def Let_def split: option.splits sum.splits)

lemma point_in_geofence_try_no_alert:
  "alert_calls (snd (point_in_geofence_try lib lat lon g)) = []"
  by (simp add: point_in_geofence_try_def split: sum.splits)

lemma point_in_geofence_no_alert: "alert_calls (snd (point_in_geofence lib lat lon g)) = []"
  using point_in_geofence_try_no_alert [of lib lat lon g]
  by (cases "point_in_geofence_try lib lat lon g")
     (auto simp: point_in_geofence_def alert_calls_append split: sum.splits)

lemma send_geofence_alert_calls:
  "alert_calls (snd (send_geofence_alert w lat lon d dev)) = [(lat, lon, d, dev)]"
  by (simp add: send_geofence_alert_def Let_def split: option.splits sum.splits)

text \<open>The alert calls of an event that reaches evaluation, read off the decision value.\<close>

lemma process_geofence_event_alert_calls:
  assumes "extract_coordinates event_body = Inr (lat, lon)"
    and "lat \<noteq> JNull" and "lon \<noteq> JNull"
    and "fst (load_geofence w) = Inr geofence_data"
  shows "alert_calls (snd (process_geofence_event w event_body device_id)) =
           (case fst (point_in_geofence (shapely_lib w) lat lon geofence_data) of
              None \<Rightarrow> []
            | Some d \<Rightarrow> if d \<le> 0 then [(lat, lon, d, device_id)] else [])"
proof -
  obtain lg where lg: "load_geofence w = (Inr geofence_data, lg)"
    using assms(4) by (cases "load_geofence w") simp
  have nl: "alert_calls lg = []"
    using load_geofence_no_alert [of w] lg by simp
  obtain r lp where pg: "point_in_geofence (shapely_lib w) lat lon geofence_data = (r, lp)"
    by (cases "point_in_geofence (shapely_lib w) lat lon geofence_data")
  have np: "alert_calls lp = []"
    using point_in_geofence_no_alert [of "shapely_lib w" lat lon geofence_data] pg by simp
  show ?thesis
  proof (cases r)
    case None
    then show ?thesis
      using assms(1-3) lg pg nl np
      by (simp add: process_geofence_event_def alert_calls_append)
  next
    case (Some d)
    obtain ra la where sa: "send_geofence_alert w lat lon d device_id = (ra, la)"
      by (cases "send_geofence_alert w lat lon d device_id")
    have "alert_calls la = [(lat, lon, d, device_id)]"
      using send_geofence_alert_calls [of w lat lon d device_id] sa by simp
    then show ?thesis
      using Some assms(1-3) lg pg nl np sa
      by (simp add: process_geofence_event_def alert_calls_append)
  qed
qed

lemma example_centre_decision:
  "point_in_geofence planar (JNum 36.5275) (JNum 5.8695) example_polygon =
     (Some (- 999), [Log INFO ''Checking point''])"
  unfolding point_in_geofence_def point_in_geofence_try_def evaluate_geometry_def
    boundary_metres_def example_centre_Point example_resolve example_type
    example_coordinates example_shell example_Polygon example_centre_inside example_boundary
    example_centre_distance sum.case
  by simp

lemma test_services_load:
  "load_geofence (test_services boundary names storage_env) =
     (Inr boundary, [Log INFO ''Downloading geofence data...'',
                     DownloadBlob ''geofences'' ''geofence/geofence.json''])"
  by (simp add: load_geofence_def test_services_def storage_env_def)

lemma test_services_lib [simp]: "shapely_lib (test_services boundary names env) = planar"
  by (simp add: test_services_def)

lemma extract_gps_pair:
  "x \<noteq> 0 \<Longrightarrow> y \<noteq> 0 \<Longrightarrow>
   extract_coordinates (JObj [(''gps'', JObj [(''lat'', JNum x), (''lon'', JNum y)])]) =
     Inr (JNum x, JNum y)"
  by (simp add: extract_coordinates_def py_get_def py_or_def)

section \<open>Dispatch\<close>

text \<open>
  Claim C2. For an event that reaches evaluation (both coordinates extracted, boundary
  loaded), \<^verbatim>\<open>send_geofence_alert\<close> is entered exactly once, with the latitude, longitude and
  device id of the event, if and only if the decision value of \<^verbatim>\<open>point_in_geofence\<close> is at
  most 0; with a positive decision value it is not entered at all.
\<close>

theorem alert_iff_decision_not_positive:
  assumes "extract_coordinates event_body = Inr (lat, lon)"
    and "lat \<noteq> JNull" and "lon \<noteq> JNull"
    and "fst (load_geofence w) = Inr geofence_data"
  shows "alert_calls (snd (process_geofence_event w event_body device_id)) =
           (case fst (point_in_geofence (shapely_lib w) lat lon geofence_data) of
              None \<Rightarrow> []
            | Some d \<Rightarrow> if d \<le> 0 then [(lat, lon, d, device_id)] else []) \<and>
         (length (alert_calls (snd (process_geofence_event w event_body device_id))) = 1 \<longleftrightarrow>
            (\<exists>d. fst (point_in_geofence (shapely_lib w) lat lon geofence_data) = Some d \<and> d \<le> 0))"
  using process_geofence_event_alert_calls [OF assms, of device_id]
  by (auto split: option.splits)

theorem alert_iff_decision_not_positive_witness:
  "alert_calls (snd (process_geofence_event (test_services example_polygon [] storage_env)
      (JObj [(''gps'', JObj [(''lat'', JNum 36.5275), (''lon'', JNum 5.8695)])]) ''tracker-1'')) =
     [(JNum 36.5275, JNum 5.8695, - 999, ''tracker-1'')]"
proof -
  let ?w = "test_services example_polygon [] storage_env"
  have e: "extract_coordinates (JObj [(''gps'', JObj [(''lat'', JNum 36.5275), (''lon'', JNum 5.8695)])])
             = Inr (JNum 36.5275, JNum 5.8695)"
    by (rule extract_gps_pair) simp_all
  have l: "fst (load_geofence ?w) = Inr example_polygon"
    by (simp add: test_services_load)
  have a: "JNum 36.5275 \<noteq> JNull" and b: "JNum 5.8695 \<noteq> JNull" by simp_all
  from alert_iff_decision_not_positive [OF e a b l, of "''tracker-1''"]
  show ?thesis
    unfolding test_services_lib example_centre_decision by simp
qed

lemma send_attempts_append: "send_attempts (xs @ ys) = send_attempts xs @ send_attempts ys"
  by (induction xs rule: send_attempts.induct) simp_all

text \<open>
  Claim C9. \<^verbatim>\<open>send_geofence_alert\<close> never raises to its caller. Without a
  \<^verbatim>\<open>SendGridApiKey\<close> in the environment it makes no send attempt and returns after logging
  a mock notification; when a send attempt fails, the exception is caught and logged.
\<close>

theorem send_geofence_alert_never_raises:
  "fst (send_geofence_alert w lat lon distance device_id) = Inr () \<and>
   (environ w ''SendGridApiKey'' = None \<longrightarrow>
      snd (send_geofence_alert w lat lon distance device_id) =
        [Call_send_geofence_alert lat lon distance device_id,
         Log INFO ''Attempting to send notification...'',
         Log WARNING ''SendGridApiKey not found - running locally? Using mock notification'',
         Log INFO ''MOCK EMAIL: Geofence alert''] \<and>
      send_attempts (snd (send_geofence_alert w lat lon distance device_id)) = []) \<and>
   (\<forall>key e. environ w ''SendGridApiKey'' = Some key \<and>
      sendgrid_send w key (alert_message w lat lon distance device_id) = Inl e \<longrightarrow>
      snd (send_geofence_alert w lat lon distance device_id) =
        [Call_send_geofence_alert lat lon distance device_id,
         Log INFO ''Attempting to send notification...'',
         SendGridSend key (alert_message w lat lon distance device_id),
         Log ERROR ''Failed to send email''])"
  by (simp add: send_geofence_alert_def Let_def split: option.splits sum.splits)

theorem send_geofence_alert_never_raises_witness:
  "send_geofence_alert (test_services example_polygon [] Map.empty)
      (JNum 36.5275) (JNum 5.8695) (- 999) ''tracker-1'' =
     (Inr (),
      [Call_send_geofence_alert (JNum 36.5275) (JNum 5.8695) (- 999) ''tracker-1'',
       Log INFO ''Attempting to send notification...'',
       Log WARNING ''SendGridApiKey not found - running locally? Using mock notification'',
       Log INFO ''MOCK EMAIL: Geofence alert'']) \<and>
   fst (send_geofence_alert
      ((test_services example_polygon [] [''SendGridApiKey'' \<mapsto> ''SG.key''])
         \<lparr>sendgrid_send := \<lambda>key message. Inl (LibraryError ''HTTP Error 401: Unauthorized'')\<rparr>)
      (JNum 36.5275) (JNum 5.8695) (- 999) ''tracker-1'') = Inr () \<and>
   last (snd (send_geofence_alert
      ((test_services example_polygon [] [''SendGridApiKey'' \<mapsto> ''SG.key''])
         \<lparr>sendgrid_send := \<lambda>key message. Inl (LibraryError ''HTTP Error 401: Unauthorized'')\<rparr>)
      (JNum 36.5275) (JNum 5.8695) (- 999) ''tracker-1'')) = Log ERROR ''Failed to send email''"
proof -
  let ?w = "test_services example_polygon [] Map.empty"
  let ?w' = "(test_services example_polygon [] [''SendGridApiKey'' \<mapsto> ''SG.key''])
         \<lparr>sendgrid_send := \<lambda>key message. Inl (LibraryError ''HTTP Error 401: Unauthorized'')\<rparr>"
  have n: "environ ?w ''SendGridApiKey'' = None"
    by (simp add: test_services_def)
  have k: "environ ?w' ''SendGridApiKey'' = Some ''SG.key''"
    by (simp add: test_services_def)
  have f: "sendgrid_send ?w' ''SG.key'' m = Inl (LibraryError ''HTTP Error 401: Unauthorized'')" for m
    by simp
  have 1: "send_geofence_alert ?w (JNum 36.5275) (JNum 5.8695) (- 999) ''tracker-1'' =
     (Inr (),
      [Call_send_geofence_alert (JNum 36.5275) (JNum 5.8695) (- 999) ''tracker-1'',
       Log INFO ''Attempting to send notification...'',
       Log WARNING ''SendGridApiKey not found - running locally? Using mock notification'',
       Log INFO ''MOCK EMAIL: Geofence alert''])"
    using send_geofence_alert_never_raises [of ?w "JNum 36.5275" "JNum 5.8695" "- 999" "''tracker-1''"] n
    by (simp add: prod_eq_iff)
  have 2: "fst (send_geofence_alert ?w' (JNum 36.5275) (JNum 5.8695) (- 999) ''tracker-1'') = Inr () \<and>
     last (snd (send_geofence_alert ?w' (JNum 36.5275) (JNum 5.8695) (- 999) ''tracker-1'')) =
       Log ERROR ''Failed to send email''"
    using send_geofence_alert_never_raises [of ?w' "JNum 36.5275" "JNum 5.8695" "- 999" "''tracker-1''"] k f
    by simp
  from 1 2 show ?thesis by blast
qed

lemma extract_no_coordinates:
  "no_coordinates g \<Longrightarrow>
   (case py_get (JObj g) ''lat'' of
             Inl e \<Rightarrow> Inl e
           | Inr a \<Rightarrow>
               (case py_or a (py_get (JObj g) ''latitude'') of
                  Inl e \<Rightarrow> Inl e
                | Inr lat \<Rightarrow>
                    (case py_get (JObj g) ''lon'' of
                       Inl e \<Rightarrow> Inl e
                     | Inr b \<Rightarrow>
                         (case py_or b (py_get (JObj g) ''longitude'') of
                            Inl e \<Rightarrow> Inl e
                          | Inr lon \<Rightarrow> Inr (lat, lon))))) = Inr (JNull, JNull)"
  by (simp add: no_coordinates_def py_get_def py_or_def)

text \<open>
  Claim C5. An event whose payload has none of \<^verbatim>\<open>lat\<close>, \<^verbatim>\<open>latitude\<close>, \<^verbatim>\<open>lon\<close>,
  \<^verbatim>\<open>longitude\<close>, neither at top level nor under \<^verbatim>\<open>gps\<close>, ends at the coordinate check: no
  boundary blob is downloaded and no alert is dispatched.
\<close>

theorem missing_coordinates_skipped:
  assumes "no_coordinates ev"
    and "\<forall>g. map_of ev ''gps'' = Some (JObj g) \<longrightarrow> no_coordinates g"
  shows "blob_fetches (snd (process_geofence_event w (JObj ev) device_id)) = [] \<and>
         alert_calls (snd (process_geofence_event w (JObj ev) device_id)) = [] \<and>
         send_attempts (snd (process_geofence_event w (JObj ev) device_id)) = [] \<and>
         (map_of ev ''gps'' = None \<or> (\<exists>g. map_of ev ''gps'' = Some (JObj g)) \<longrightarrow>
            process_geofence_event w (JObj ev) device_id =
              (Inr (), [Log INFO ''Processing event'',
                        Log ERROR ''GPS coordinates not found in event data'']))"
proof (cases "map_of ev ''gps''")
  case None
  then show ?thesis
    using extract_no_coordinates [OF assms(1)]
    by (simp add: process_geofence_event_def extract_coordinates_def)
next
  case (Some v)
  show ?thesis
  proof (cases v)
    case (JObj g)
    then have "no_coordinates g" using Some assms(2) by simp
    then show ?thesis
      using Some JObj extract_no_coordinates [of g]
      by (simp add: process_geofence_event_def extract_coordinates_def)
  qed (use Some in \<open>simp_all add: process_geofence_event_def extract_coordinates_def py_get_def\<close>)
qed

theorem missing_coordinates_skipped_witness:
  "process_geofence_event (test_services example_polygon [] storage_env)
      (JObj [(''deviceId'', JStr ''tracker-1''), (''speed'', JNum 12)]) ''tracker-1'' =
     (Inr (), [Log INFO ''Processing event'',
               Log ERROR ''GPS coordinates not found in event data'']) \<and>
   blob_fetches (snd (process_geofence_event (test_services example_polygon [] storage_env)
      (JObj [(''deviceId'', JStr ''tracker-1''), (''speed'', JNum 12)]) ''tracker-1'')) = []"
proof -
  have h1: "no_coordinates [(''deviceId'', JStr ''tracker-1''), (''speed'', JNum 12)]"
    by (simp add: no_coordinates_def)
  have h2: "\<forall>g. map_of [(''deviceId'', JStr ''tracker-1''), (''speed'', JNum 12)] ''gps'' =
               Some (JObj g) \<longrightarrow> no_coordinates g"
    by simp
  show ?thesis
    using missing_coordinates_skipped [OF h1 h2,
        of "test_services example_polygon [] storage_env" "''tracker-1''"]
    by simp
qed

section \<open>Failures inside point_in_geofence\<close>

text \<open>
  Claim C6. Whenever geometry construction or parsing raises inside the \<^verbatim>\<open>try\<close> block of
  \<^verbatim>\<open>point_in_geofence\<close>, the function logs the error and returns the fallback decision value
  999; the exception does not reach the caller.
\<close>

theorem point_in_geofence_exception_fallback:
  assumes "point_in_geofence_try lib lat lon geofence_data = (Inl e, tr)"
  shows "point_in_geofence lib lat lon geofence_data =
           (Some 999, tr @ [Log ERROR ''Geofence error''])"
  using assms by (simp add: point_in_geofence_def)

theorem point_in_geofence_exception_fallback_witness:
  "point_in_geofence planar (JNum 36.5275) (JNum 5.8695)
      (JObj [(''type'', JStr ''FeatureCollection''), (''features'', JArr [])]) =
     (Some 999, [Log INFO ''Checking point'', Log ERROR ''Geofence error''])"
proof -
  have t: "point_in_geofence_try planar (JNum 36.5275) (JNum 5.8695)
             (JObj [(''type'', JStr ''FeatureCollection''), (''features'', JArr [])]) =
           (Inl IndexError, [Log INFO ''Checking point''])"
    unfolding point_in_geofence_try_def example_centre_Point sum.case
    by (simp add: resolve_geometry_def)
  from point_in_geofence_exception_fallback [OF t] show ?thesis by simp
qed

text \<open>Where the exception can come from: the constructors of the library and the subscripts.\<close>

lemma try_raises_Point:
  "sh_Point lib lon lat = Inl e \<Longrightarrow> point_in_geofence_try lib lat lon geofence_data = (Inl e, [])"
  by (simp add: point_in_geofence_try_def)

lemma try_raises_resolve:
  "sh_Point lib lon lat = Inr point \<Longrightarrow> resolve_geometry geofence_data = Inl e \<Longrightarrow>
   point_in_geofence_try lib lat lon geofence_data = (Inl e, [Log INFO ''Checking point''])"
  by (simp add: point_in_geofence_try_def)

lemma try_raises_Polygon:
  assumes "sh_Point lib lon lat = Inr point"
    and "resolve_geometry geofence_data = Inr geometry"
    and "getitem_str geometry ''type'' = Inr (JStr ''Polygon'')"
    and "getitem_str geometry ''coordinates'' = Inr cs"
    and "getitem_idx cs 0 = Inr shell"
    and "sh_Polygon lib shell = Inl e"
  shows "point_in_geofence_try lib lat lon geofence_data = (Inl e, [Log INFO ''Checking point''])"
  using assms by (simp add: point_in_geofence_try_def evaluate_geometry_def)

lemma resolve_raises_without_type:
  "map_of kvs ''type'' = None \<Longrightarrow> resolve_geometry (JObj kvs) = Inl KeyError"
  by (simp add: resolve_geometry_def)

lemma resolve_raises_without_features:
  "map_of kvs ''type'' = Some (JStr ''FeatureCollection'') \<Longrightarrow>
   map_of kvs ''features'' = Some (JArr []) \<Longrightarrow> resolve_geometry (JObj kvs) = Inl IndexError"
  by (simp add: resolve_geometry_def)



section \<open>Listing the dates\<close>

lemma fold_add_date:
  "fold add_date names S =
     S \<union> {d. \<exists>n \<in> set names. 4 \<le> length (split n CHR ''/'') \<and>
               d = split n CHR ''/'' ! 1 @ ''-'' @ split n CHR ''/'' ! 2 @ ''-'' @
                   split n CHR ''/'' ! 3}"
  by (induction names arbitrary: S) (auto simp: add_date_def Let_def)

lemma finite_fold_add_date: "finite S \<Longrightarrow> finite (fold add_date names S)"
  by (induction names arbitrary: S) (auto simp: add_date_def Let_def)

lemma gps_dates_example:
  "gps_dates [''a/2024/01/02/...'', ''a/2024/01/02/...'', ''b/2024/02/10/...''] =
     [''2024-01-02'', ''2024-02-10'']"
  by code_simp

text \<open>
  Claim C8. When the blobs can be listed, \<^verbatim>\<open>list_gps_dates\<close> answers with the date strings
  made of the second, third and fourth path segment of every key with at least four segments,
  without duplicates and in ascending order; for the keys
  \<^verbatim>\<open>a/2024/01/02/...\<close>, \<^verbatim>\<open>a/2024/01/02/...\<close>, \<^verbatim>\<open>b/2024/02/10/...\<close> the answer is
  \<^verbatim>\<open>["2024-01-02", "2024-02-10"]\<close>.
\<close>

theorem list_gps_dates_sorted_distinct:
  assumes "get_or_create_container w ''gps-data'' = Inr container_client"
    and "list_blobs w container_client = Inr names"
  shows "list_gps_dates w =
           \<lparr>body = Json_dumps (JArr (map JStr (gps_dates names))),
            status_code = 200, mimetype = Some ''application/json''\<rparr> \<and>
         sorted (gps_dates names) \<and> distinct (gps_dates names) \<and>
         set (gps_dates names) =
           {d. \<exists>n \<in> set names. 4 \<le> length (split n CHR ''/'') \<and>
                 d = split n CHR ''/'' ! 1 @ ''-'' @ split n CHR ''/'' ! 2 @ ''-'' @
                     split n CHR ''/'' ! 3} \<and>
         (names = [''a/2024/01/02/...'', ''a/2024/01/02/...'', ''b/2024/02/10/...''] \<longrightarrow>
            gps_dates names = [''2024-01-02'', ''2024-02-10''])"
proof -
  have "set (gps_dates names) = fold add_date names {}"
    unfolding gps_dates_def by (rule set_sorted_list_of_set) (simp add: finite_fold_add_date)
  then show ?thesis
    using assms gps_dates_example
    by (simp add: list_gps_dates_def fold_add_date) (simp add: gps_dates_def)
qed

theorem list_gps_dates_sorted_distinct_witness:
  "list_gps_dates (test_services example_polygon
      [''a/2024/01/02/...'', ''a/2024/01/02/...'', ''b/2024/02/10/...''] storage_env) =
     \<lparr>body = Json_dumps (JArr [JStr ''2024-01-02'', JStr ''2024-02-10'']),
      status_code = 200, mimetype = Some ''application/json''\<rparr>"
proof -
  let ?names = "[''a/2024/01/02/...'', ''a/2024/01/02/...'', ''b/2024/02/10/...'']"
  let ?w = "test_services example_polygon ?names storage_env"
  have c: "get_or_create_container ?w ''gps-data'' = Inr ()"
    by (simp add: get_or_create_container_def test_services_def storage_env_def)
  have l: "list_blobs ?w () = Inr ?names"
    by (simp add: test_services_def)
  from list_gps_dates_sorted_distinct [OF c l]
  show ?thesis by simp
qed

section \<open>Points on the boundary ring\<close>

text \<open>
  In the planar instance, which computes over the reals, a point on a segment of the ring is
  not contained and is at distance 0 from the ring. This is a fact about that instance only:
  what the library the code calls reports for such a point depends on its floating-point
  arithmetic, which is outside this model.
\<close>

lemma sq_dist_nonneg: "0 \<le> sq_dist p q"
  by (simp add: sq_dist_def)

lemma sq_dist_segment_nonneg: "0 \<le> sq_dist_segment p s"
  by (simp add: sq_dist_segment_def Let_def sq_dist_nonneg)

lemma fold_min_zero:
  fixes a :: real
  assumes "\<forall>x \<in> set (a # xs). 0 \<le> x" and "0 \<in> set (a # xs)"
  shows "fold min xs a = 0"
  using assms
proof (induction xs arbitrary: a)
  case Nil
  then show ?case by simp
next
  case (Cons x xs)
  have "fold min xs (min x a) = 0"
  proof (rule Cons.IH)
    show "\<forall>y \<in> set (min x a # xs). 0 \<le> y" using Cons.prems(1) by auto
    show "0 \<in> set (min x a # xs)" using Cons.prems by (auto simp: min_def)
  qed
  then show ?case by simp
qed

lemma planar_on_ring:
  assumes "s \<in> set (edges ring)" and "sq_dist_segment p s = 0"
  shows "sh_contains planar (GPolygon ring) (GPoint p) = Inr False"
    and "sh_distance planar (GPoint p) (GLinearRing ring) = Inr 0"
proof -
  show "sh_contains planar (GPolygon ring) (GPoint p) = Inr False"
    using assms by (auto simp: planar_def list_all_iff)
  obtain e es where es: "edges ring = e # es"
    using assms(1) by (cases "edges ring") auto
  have "fold min (map (sq_dist_segment p) es) (sq_dist_segment p e) = 0"
  proof (rule fold_min_zero)
    show "\<forall>x \<in> set (sq_dist_segment p e # map (sq_dist_segment p) es). 0 \<le> x"
      by (auto simp: sq_dist_segment_nonneg)
    have "sq_dist_segment p s \<in> sq_dist_segment p ` set (e # es)"
      using assms(1) es by (intro imageI) simp
    then show "0 \<in> set (sq_dist_segment p e # map (sq_dist_segment p) es)"
      using assms(2) by simp
  qed
  then show "sh_distance planar (GPoint p) (GLinearRing ring) = Inr 0"
    by (simp add: planar_def es)
qed


section \<open>Geometries that are not polygons, coordinates that are zero\<close>

text \<open>
  With a resolved geometry whose type is not \<^verbatim>\<open>Polygon\<close> no \<^verbatim>\<open>return\<close> statement is
  reached: the function gives \<^verbatim>\<open>None\<close>.
\<close>

lemma non_polygon_runs_off_the_end:
  assumes "sh_Point lib lon lat = Inr point"
    and "resolve_geometry geofence_data = Inr geometry"
    and "getitem_str geometry ''type'' = Inr t"
    and "t \<noteq> JStr ''Polygon''"
  shows "point_in_geofence lib lat lon geofence_data = (None, [Log INFO ''Checking point''])"
  using assms
  by (simp add: point_in_geofence_def point_in_geofence_try_def evaluate_geometry_def)

text \<open>The caller then compares \<^verbatim>\<open>None\<close> with 0 and raises.\<close>

lemma non_polygon_event_raises:
  assumes "extract_coordinates event_body = Inr (lat, lon)"
    and "lat \<noteq> JNull" and "lon \<noteq> JNull"
    and "fst (load_geofence w) = Inr geofence_data"
    and "sh_Point (shapely_lib w) lon lat = Inr point"
    and "resolve_geometry geofence_data = Inr geometry"
    and "getitem_str geometry ''type'' = Inr t"
    and "t \<noteq> JStr ''Polygon''"
  shows "fst (process_geofence_event w event_body device_id) = Inl TypeError"
proof -
  obtain lg where lg: "load_geofence w = (Inr geofence_data, lg)"
    using assms(4) by (cases "load_geofence w") simp
  show ?thesis
    using assms(1-3) lg non_polygon_runs_off_the_end [OF assms(5-8)]
    by (simp add: process_geofence_event_def)
qed

text \<open>
  Claim C3 says that a boundary whose resolved geometry type is not \<^verbatim>\<open>Polygon\<close> yields the
  fallback decision value 999 and no error for the caller. On a \<^verbatim>\<open>MultiPolygon\<close> boundary
  \<^verbatim>\<open>point_in_geofence\<close> returns \<^verbatim>\<open>None\<close> instead, and \<^verbatim>\<open>process_geofence_event\<close> then
  raises \<^verbatim>\<open>TypeError\<close> when it compares that result with 0.
\<close>

theorem non_polygon_geometry_gives_None:
  "point_in_geofence planar (JNum 36.5275) (JNum 5.8695) example_multipolygon =
     (None, [Log INFO ''Checking point'']) \<and>
   process_geofence_event (test_services example_multipolygon [] storage_env)
      (JObj [(''gps'', JObj [(''lat'', JNum 36.5275), (''lon'', JNum 5.8695)])]) ''tracker-1'' =
     (Inl TypeError,
      [Log INFO ''Processing event'', Log INFO ''GPS coordinates'',
       Log INFO ''Downloading geofence data...'',
       DownloadBlob ''geofences'' ''geofence/geofence.json'',
       Log INFO ''Checking point''])"
proof -
  have r: "resolve_geometry example_multipolygon = Inr example_multipolygon"
    by (simp add: resolve_geometry_def example_multipolygon_def)
  have t: "getitem_str example_multipolygon ''type'' = Inr (JStr ''MultiPolygon'')"
    by (simp add: example_multipolygon_def)
  have n: "JStr ''MultiPolygon'' \<noteq> JStr ''Polygon''" by simp
  have p: "point_in_geofence planar (JNum 36.5275) (JNum 5.8695) example_multipolygon =
     (None, [Log INFO ''Checking point''])"
    by (rule non_polygon_runs_off_the_end [OF example_centre_Point r t n])
  have e: "extract_coordinates (JObj [(''gps'', JObj [(''lat'', JNum 36.5275), (''lon'', JNum 5.8695)])])
             = Inr (JNum 36.5275, JNum 5.8695)"
    by (rule extract_gps_pair) simp_all
  have "process_geofence_event (test_services example_multipolygon [] storage_env)
      (JObj [(''gps'', JObj [(''lat'', JNum 36.5275), (''lon'', JNum 5.8695)])]) ''tracker-1'' =
     (Inl TypeError,
      [Log INFO ''Processing event'', Log INFO ''GPS coordinates'',
       Log INFO ''Downloading geofence data...'',
       DownloadBlob ''geofences'' ''geofence/geofence.json'',
       Log INFO ''Checking point''])"
    unfolding process_geofence_event_def e test_services_load test_services_lib p
      Let_def sum.case prod.case
    by simp
  with p show ?thesis by (rule conjI)
qed

text \<open>
  Claim C4 says that an event is rejected if and only if a coordinate is absent, and that
  every event with numeric values for both coordinates goes on to evaluation. A payload with
  latitude 0 and no \<^verbatim>\<open>latitude\<close> key has both coordinates, yet \<^verbatim>\<open>0 or None\<close> is
  \<^verbatim>\<open>None\<close> and the event is rejected as having no coordinates.
\<close>

theorem zero_latitude_rejected:
  "extract_coordinates (JObj [(''gps'', JObj [(''lat'', JNum 0), (''lon'', JNum 5.86945)])]) =
     Inr (JNull, JNum 5.86945) \<and>
   process_geofence_event (test_services example_polygon [] storage_env)
      (JObj [(''gps'', JObj [(''lat'', JNum 0), (''lon'', JNum 5.86945)])]) ''test-device'' =
     (Inr (), [Log INFO ''Processing event'',
               Log ERROR ''GPS coordinates not found in event data''])"
  by (simp add: process_geofence_event_def extract_coordinates_def py_get_def py_or_def)

end
